theory Spec2Isabelle
  imports Main
begin

section \<open>Constants and command-line flags\<close>

text \<open>
  The sources hold two revisions of the websocket handler: the package-level functions
  \<^verbatim>\<open>wsReceiver\<close>, \<^verbatim>\<open>wsRead\<close>, \<^verbatim>\<open>serveClient...MsgJSON\<close> (relay.go, first part) and the methods
  of \<^verbatim>\<open>RelayHandler\<close> (relay.go, second part), and two revisions of \<^verbatim>\<open>Run\<close>: the one of
  main.go and the one with the flag declarations (relay.go, third part). The functions keep
  their names; the methods are prefixed with \<open>RelayHandler_\<close>.
\<close>

definition SenderLen :: nat where "SenderLen = 3"
definition RateLimitRate :: nat where "RateLimitRate = 20"
definition RateLimitBurst :: nat where "RateLimitBurst = 10"
definition MaxFilterLen :: nat where "MaxFilterLen = 50"

definition DefaultDBSize :: int where "DefaultDBSize = 10000"
definition DefaultAddr :: string where "DefaultAddr = '':80''"
definition DefaultClientMsgLen :: int where "DefaultClientMsgLen = 1048576"
definition DefaultPprofAddr :: string where "DefaultPprofAddr = '':8396''"

text \<open>
  The flag variables \<^verbatim>\<open>DBSize\<close>, \<^verbatim>\<open>Addr\<close>, \<^verbatim>\<open>PprofAddr\<close>, \<^verbatim>\<open>MaxClientMesLen\<close>, \<^verbatim>\<open>Verbose\<close>.
  A command line is the list of the flags it sets, by name; \<^verbatim>\<open>flag.Int(name, default, _)\<close>
  is the value given for the name, the last one when it is given twice, or the default.
\<close>

datatype flag_value = IntFlag int | StringFlag string | BoolFlag bool

record Flags =
  DBSize :: int
  Addr :: string
  PprofAddr :: string
  MaxClientMesLen :: int
  Verbose :: bool

fun flag_Int :: "string \<Rightarrow> int \<Rightarrow> (string \<times> flag_value) list \<Rightarrow> int" where
  "flag_Int name dflt [] = dflt"
| "flag_Int name dflt ((n, v) # args) =
     (case v of
        IntFlag i \<Rightarrow> (if n = name then flag_Int name i args else flag_Int name dflt args)
      | _ \<Rightarrow> flag_Int name dflt args)"

fun flag_String :: "string \<Rightarrow> string \<Rightarrow> (string \<times> flag_value) list \<Rightarrow> string" where
  "flag_String name dflt [] = dflt"
| "flag_String name dflt ((n, v) # args) =
     (case v of
        StringFlag s \<Rightarrow> (if n = name then flag_String name s args else flag_String name dflt args)
      | _ \<Rightarrow> flag_String name dflt args)"

fun flag_Bool :: "string \<Rightarrow> bool \<Rightarrow> (string \<times> flag_value) list \<Rightarrow> bool" where
  "flag_Bool name dflt [] = dflt"
| "flag_Bool name dflt ((n, v) # args) =
     (case v of
        BoolFlag b \<Rightarrow> (if n = name then flag_Bool name b args else flag_Bool name dflt args)
      | _ \<Rightarrow> flag_Bool name dflt args)"

definition flag_Parse :: "(string \<times> flag_value) list \<Rightarrow> Flags" where
  "flag_Parse args =
     \<lparr> DBSize = flag_Int ''db'' DefaultDBSize args,
       Addr = flag_String ''addr'' DefaultAddr args,
       PprofAddr = flag_String ''pprof'' DefaultPprofAddr args,
       MaxClientMesLen = flag_Int ''msglen'' DefaultClientMsgLen args,
       Verbose = flag_Bool ''v'' False args \<rparr>"

section \<open>Data\<close>

text \<open>
  Errors are values. \<open>External\<close> stands for an error value made outside these sources
  (the websocket reader, the rate limiter, the router). The constructors with an argument
  of type \<open>error\<close> are the \<^verbatim>\<open>fmt.Errorf("...: %w", err)\<close> wrappers.
\<close>

datatype error =
    EOF
  | External string
  | RateLimiterError error
  | ReceiveError error
  | NextFrameError error
  | MessageTooLong nat string
  | FilterTooLong
  | CannotCloseConn string
  | VerifyError
  | InvalidSignature
  | InvalidCreatedAt
  | PublishError
  | HandleWebsocketError error


text \<open>An event as the handler builds it: the client's event JSON and the time of receipt.\<close>

datatype 'ej Event = Event (EventJSON: 'ej) (ReceivedAt: int)

text \<open>
  What \<^verbatim>\<open>ParseClientMsgJSON\<close> returns. The type switch of the receive loop has the three
  cases below and no default: a value of any other type is \<open>ClientOtherMsgJSON\<close>.
\<close>

datatype ('ej, 'fj) ClientMsgJSON =
    ClientReqMsgJSON (SubscriptionID: string) (FilterJSONs: "'fj list")
  | ClientCloseMsgJSON string
  | ClientEventMsgJSON 'ej
  | ClientOtherMsgJSON

datatype 'ej ServerMsg =
    ServerEventMsg string 'ej
  | ServerEOSEMsg string

text \<open>
  Everything the reader task does to its collaborators, in the order it does it: channel
  sends, cache and router calls, log lines, metrics.
\<close>

datatype ('ej, 'f) effect =
    LogStderr string
  | LogStdout string
  | LogInfo string
  | AccessLogRecv string
  | PromInc string
  | Send "'ej ServerMsg"
  | CallFindAll "'f list"
  | CallSave "'ej Event"
  | CallPublish "'ej Event"
  | CallSubscribe string string "'f list"
  | CallClose string string
  | CallDelete string
  | ConnClose

text \<open>
  The state one reader task works on: the cache (\<^verbatim>\<open>db\<close>), the router, and the effects so
  far. The frames put on the outbound channel are the \<open>Send\<close> effects, in order; the
  writer task that drains the channel is not part of the model, so a send always completes.
\<close>

record ('ej, 'f, 'c, 'r) state =
  db :: 'c
  router :: 'r
  trace :: "('ej, 'f) effect list"

definition emit :: "('ej, 'f) effect \<Rightarrow> ('ej, 'f, 'c, 'r) state \<Rightarrow> ('ej, 'f, 'c, 'r) state" where
  "emit x s = s\<lparr>trace := trace s @ [x]\<rparr>"

fun sent :: "('ej, 'f) effect list \<Rightarrow> 'ej ServerMsg list" where
  "sent [] = []"
| "sent (Send m # xs) = m # sent xs"
| "sent (_ # xs) = sent xs"

fun is_EOSE :: "'ej ServerMsg \<Rightarrow> bool" where
  "is_EOSE (ServerEOSEMsg _) = True"
| "is_EOSE _ = False"

text \<open>
  The code these sources call and do not contain, as parameters: the UTF-8 check, the
  parser and the filter constructor, the cache (\<^verbatim>\<open>FindAll\<close>, \<^verbatim>\<open>Save\<close>), the router
  (\<^verbatim>\<open>Subscribe\<close>, \<^verbatim>\<open>Close\<close>, \<^verbatim>\<open>Delete\<close>, \<^verbatim>\<open>Publish\<close>), and the event's own checks
  (\<^verbatim>\<open>Verify\<close>, which returns \<^verbatim>\<open>(ok, err)\<close>, and \<^verbatim>\<open>ValidCreatedAt\<close>).
\<close>

record ('ej, 'fj, 'f, 'c, 'r) env =
  utf8_Valid :: "string \<Rightarrow> bool"
  ParseClientMsgJSON :: "string \<Rightarrow> error + ('ej, 'fj) ClientMsgJSON"
  NewFiltersFromFilterJSONs :: "'fj list \<Rightarrow> 'f list"
  FindAll :: "'c \<Rightarrow> 'f list \<Rightarrow> 'ej Event list"
  Save :: "'c \<Rightarrow> 'ej Event \<Rightarrow> 'c"
  Subscribe :: "'r \<Rightarrow> string \<Rightarrow> string \<Rightarrow> 'f list \<Rightarrow> error option \<times> 'r"
  Close :: "'r \<Rightarrow> string \<Rightarrow> string \<Rightarrow> error option \<times> 'r"
  Delete :: "'r \<Rightarrow> string \<Rightarrow> 'r"
  Publish :: "'r \<Rightarrow> 'ej Event \<Rightarrow> error option \<times> 'r"
  Verify :: "'ej \<Rightarrow> bool \<times> error option"
  ValidCreatedAt :: "'ej Event \<Rightarrow> bool"

text \<open>
  What one turn of the receive loop takes from outside: the result of \<^verbatim>\<open>lim.Wait(ctx)\<close>,
  the next message of the websocket reader, and the clock. A message is the result of
  \<^verbatim>\<open>NextFrame\<close> (an error or the header's opcode), the bytes the reader then yields, and how
  the reader ends after them (\<open>None\<close> for the end of the message, or a read error).
\<close>

datatype OpCode = OpContinuation | OpText | OpBinary | OpClose | OpPing | OpPong

record Frame =
  NextFrame :: "error + OpCode"
  payload :: string
  read_err :: "error option"

record Turn =
  lim_Wait :: "error option"
  frame :: Frame
  time_Now :: int

section \<open>Reading one message\<close>

text \<open>Go's \<^verbatim>\<open>int\<close> addition on a 64-bit platform: the sum wraps around.\<close>

definition int_add :: "int \<Rightarrow> int \<Rightarrow> int" where
  "int_add x y = (x + y + 2 ^ 63) mod 2 ^ 64 - 2 ^ 63"

text \<open>
  \<^verbatim>\<open>io.ReadAll(io.LimitReader(wsr, limit))\<close>: a limit of zero or less reads nothing; a
  reader with at least \<open>limit\<close> bytes is cut at \<open>limit\<close> and ends there without error;
  otherwise all bytes are read and the reader's own end is reported.
\<close>

definition ReadAll_LimitReader :: "Frame \<Rightarrow> int \<Rightarrow> string \<times> error option" where
  "ReadAll_LimitReader fr limit =
     (if limit \<le> 0 then ([], None)
      else if limit \<le> int (length (payload fr)) then (take (nat limit) (payload fr), None)
      else (payload fr, read_err fr))"

definition wsRead :: "Flags \<Rightarrow> Frame \<Rightarrow> string \<times> error option" where
  "wsRead flags fr =
     (let limit = int_add (MaxClientMesLen flags) 1 in
      case NextFrame fr of
        Inl err \<Rightarrow> ([], Some (NextFrameError err))
      | Inr opcode \<Rightarrow>
          if opcode = OpClose then ([], Some EOF)
          else
            (case ReadAll_LimitReader fr limit of
               (res, err) \<Rightarrow>
                 if int (length res) = limit then (res, Some (MessageTooLong (length res) res))
                 else (res, err)))"

section \<open>The handlers (package-level functions)\<close>

text \<open>
  \<^verbatim>\<open>serveClientReqMsgJSON\<close>. The message is given by its two fields. The \<^verbatim>\<open>for ... range\<close>
  loop over the result of \<^verbatim>\<open>FindAll\<close> is the \<open>fold\<close>. The value \<^verbatim>\<open>router.Subscribe\<close> returns is
  not used.
\<close>

definition serveClientReqMsgJSON ::
  "('ej, 'fj, 'f, 'c, 'r) env \<Rightarrow> string \<Rightarrow> ('ej, 'f, 'c, 'r) state \<Rightarrow> string \<Rightarrow> 'fj list
     \<Rightarrow> error option \<times> ('ej, 'f, 'c, 'r) state" where
  "serveClientReqMsgJSON env connID s subID filterJSONs =
     (let filters = NewFiltersFromFilterJSONs env filterJSONs in
      if length filters > MaxFilterLen + 2 then (Some FilterTooLong, s)
      else
        let events = FindAll env (db s) filters;
            s1 = emit (CallFindAll filters) s;
            s2 = fold (\<lambda>event. emit (Send (ServerEventMsg subID (EventJSON event)))) events s1;
            s3 = emit (Send (ServerEOSEMsg subID)) s2;
            s4 = emit (CallSubscribe connID subID filters) s3
        in (None, s4\<lparr>router := snd (Subscribe env (router s4) connID subID filters)\<rparr>))"

definition serveClientCloseMsgJSON ::
  "('ej, 'fj, 'f, 'c, 'r) env \<Rightarrow> string \<Rightarrow> ('ej, 'f, 'c, 'r) state \<Rightarrow> string
     \<Rightarrow> error option \<times> ('ej, 'f, 'c, 'r) state" where
  "serveClientCloseMsgJSON env connID s subID =
     (let s1 = emit (CallClose connID subID) s in
      case Close env (router s1) connID subID of
        (Some err, r) \<Rightarrow> (Some (CannotCloseConn subID), s1\<lparr>router := r\<rparr>)
      | (None, r) \<Rightarrow> (None, s1\<lparr>router := r\<rparr>))"

text \<open>\<^verbatim>\<open>serveClientEventMsgJSON\<close>; \<open>now\<close> is the value of \<^verbatim>\<open>time.Now()\<close>.\<close>

definition serveClientEventMsgJSON ::
  "('ej, 'fj, 'f, 'c, 'r) env \<Rightarrow> int \<Rightarrow> ('ej, 'f, 'c, 'r) state \<Rightarrow> 'ej
     \<Rightarrow> error option \<times> ('ej, 'f, 'c, 'r) state" where
  "serveClientEventMsgJSON env now s eventJSON =
     (case Verify env eventJSON of
        (ok, Some err) \<Rightarrow> (Some VerifyError, s)
      | (ok, None) \<Rightarrow>
          if \<not> ok then (Some InvalidSignature, s)
          else
            let event = Event eventJSON now;
                s1 = (emit (CallSave event) s)\<lparr>db := Save env (db s) event\<rparr>;
                s2 = emit (CallPublish event) s1
            in (case Publish env (router s2) event of
                  (Some err, r) \<Rightarrow> (Some PublishError, s2\<lparr>router := r\<rparr>)
                | (None, r) \<Rightarrow> (None, s2\<lparr>router := r\<rparr>)))"

text \<open>
  One turn of the \<^verbatim>\<open>for\<close> loop of \<^verbatim>\<open>wsReceiver\<close>: \<open>Inl err\<close> when the function returns
  \<open>err\<close>, \<open>Inr s'\<close> when the loop goes on to its next turn (by \<^verbatim>\<open>continue\<close> or by reaching
  the end of the body) in state \<open>s'\<close>.
\<close>

definition wsReceiver_turn ::
  "('ej, 'fj, 'f, 'c, 'r) env \<Rightarrow> Flags \<Rightarrow> string \<Rightarrow> ('ej, 'f, 'c, 'r) state \<Rightarrow> Turn
     \<Rightarrow> error + ('ej, 'f, 'c, 'r) state" where
  "wsReceiver_turn env flags connID s t =
     (case lim_Wait t of
        Some err \<Rightarrow> Inl (RateLimiterError err)
      | None \<Rightarrow>
         (case wsRead flags (frame t) of
            (p, Some err) \<Rightarrow> Inl (ReceiveError err)
          | (p, None) \<Rightarrow>
              if \<not> utf8_Valid env p then Inr (emit (LogStderr ''payload is not utf8'') s)
              else
                (case ParseClientMsgJSON env p of
                   Inl err \<Rightarrow> Inr (emit (LogStderr ''received invalid msg'') s)
                 | Inr jsonMsg \<Rightarrow>
                     let s1 = emit (AccessLogRecv p) s in
                     (case jsonMsg of
                        ClientReqMsgJSON subID filterJSONs \<Rightarrow>
                          (case serveClientReqMsgJSON env connID s1 subID filterJSONs of
                             (Some err, s2) \<Rightarrow>
                               Inr (emit (LogStderr ''failed to serve client req msg'') s2)
                           | (None, s2) \<Rightarrow> Inr s2)
                      | ClientCloseMsgJSON subID \<Rightarrow>
                          (case serveClientCloseMsgJSON env connID s1 subID of
                             (Some err, s2) \<Rightarrow>
                               Inr (emit (LogStderr ''failed to serve client close msg'') s2)
                           | (None, s2) \<Rightarrow> Inr s2)
                      | ClientEventMsgJSON eventJSON \<Rightarrow>
                          (case serveClientEventMsgJSON env (time_Now t) s1 eventJSON of
                             (Some err, s2) \<Rightarrow>
                               Inr (emit (LogStderr ''failed to serve client event msg'') s2)
                           | (None, s2) \<Rightarrow> Inr s2)
                      | ClientOtherMsgJSON \<Rightarrow> Inr s1))))"

text \<open>
  The receive loop over the turns the connection has had so far. The loop has no exit but
  \<^verbatim>\<open>return\<close>: after the last turn given it is waiting for the next message.
\<close>

datatype outcome = Returned error | AwaitingFrame

fun wsReceiver ::
  "('ej, 'fj, 'f, 'c, 'r) env \<Rightarrow> Flags \<Rightarrow> string \<Rightarrow> ('ej, 'f, 'c, 'r) state \<Rightarrow> Turn list
     \<Rightarrow> outcome \<times> ('ej, 'f, 'c, 'r) state" where
  "wsReceiver env flags connID s [] = (AwaitingFrame, s)"
| "wsReceiver env flags connID s (t # ts) =
     (case wsReceiver_turn env flags connID s t of
        Inl err \<Rightarrow> (Returned err, s)
      | Inr s' \<Rightarrow> wsReceiver env flags connID s' ts)"



text \<open>
  The cache \<^verbatim>\<open>Run\<close> creates. \<^verbatim>\<open>NewDB\<close> and \<^verbatim>\<open>DefaultFilters\<close>' types are not in the sources:
  they are parameters. \<open>Run_db\<close> is \<^verbatim>\<open>NewDB(*DBSize, DefaultFilters)\<close> of the \<^verbatim>\<open>Run\<close> with the
  flags; \<open>main_Run_db\<close> is \<^verbatim>\<open>NewDB(5)\<close> of the \<^verbatim>\<open>Run\<close> in main.go, which reads no flag.
\<close>

definition Run_db :: "(int \<Rightarrow> 'f list \<Rightarrow> 'c) \<Rightarrow> 'f list \<Rightarrow> Flags \<Rightarrow> 'c" where
  "Run_db NewDB DefaultFilters flags = NewDB (DBSize flags) DefaultFilters"

definition main_Run_db :: "(int \<Rightarrow> 'c) \<Rightarrow> (string \<times> flag_value) list \<Rightarrow> 'c" where
  "main_Run_db NewDB args = NewDB 5"

section \<open>The handlers (methods of RelayHandler)\<close>

text \<open>The method \<^verbatim>\<open>wsRead\<close> has the body of the function \<^verbatim>\<open>wsRead\<close>, line by line.\<close>

definition RelayHandler_wsRead :: "Flags \<Rightarrow> Frame \<Rightarrow> string \<times> error option" where
  "RelayHandler_wsRead flags fr =
     (let limit = int_add (MaxClientMesLen flags) 1 in
      case NextFrame fr of
        Inl err \<Rightarrow> ([], Some (NextFrameError err))
      | Inr opcode \<Rightarrow>
          if opcode = OpClose then ([], Some EOF)
          else
            (case ReadAll_LimitReader fr limit of
               (res, err) \<Rightarrow>
                 if int (length res) = limit then (res, Some (MessageTooLong (length res) res))
                 else (res, err)))"

text \<open>
  Modelled from the spec: \<^verbatim>\<open>NewEvent\<close> and \<^verbatim>\<open>NewServerEventMsg\<close> are constructors the sources
  call and do not contain. An event is the event JSON with its time of receipt, and an
  \<^verbatim>\<open>EVENT\<close> frame carries the subscription id and the event object.
\<close>

definition NewEvent :: "'ej \<Rightarrow> int \<Rightarrow> 'ej Event" where
  "NewEvent eventJSON now = Event eventJSON now"

definition NewServerEventMsg :: "string \<Rightarrow> 'ej Event \<Rightarrow> 'ej ServerMsg" where
  "NewServerEventMsg subID event = ServerEventMsg subID (EventJSON event)"

definition NewServerEOSEMsg :: "string \<Rightarrow> 'ej ServerMsg" where
  "NewServerEOSEMsg subID = ServerEOSEMsg subID"

text \<open>
  \<^verbatim>\<open>RelayHandler.serveClientReqMsgJSON\<close>; \<open>connID\<close> is \<^verbatim>\<open>GetCtxConnID(r.HTTPReq.Context())\<close>.
  Both branches on the error of \<^verbatim>\<open>Subscribe\<close> return \<^verbatim>\<open>nil\<close>.
\<close>

definition RelayHandler_serveClientReqMsgJSON ::
  "('ej, 'fj, 'f, 'c, 'r) env \<Rightarrow> string \<Rightarrow> ('ej, 'f, 'c, 'r) state \<Rightarrow> string \<Rightarrow> 'fj list
     \<Rightarrow> error option \<times> ('ej, 'f, 'c, 'r) state" where
  "RelayHandler_serveClientReqMsgJSON env connID s subID filterJSONs =
     (let filters = NewFiltersFromFilterJSONs env filterJSONs in
      if length filters > MaxFilterLen + 2 then (Some FilterTooLong, s)
      else
        let events = FindAll env (db s) filters;
            s1 = emit (CallFindAll filters) s;
            s2 = fold (\<lambda>event. emit (Send (NewServerEventMsg subID event))) events s1;
            s3 = emit (Send (NewServerEOSEMsg subID)) s2;
            s4 = emit (CallSubscribe connID subID filters) s3
        in (case Subscribe env (router s4) connID subID filters of
              (Some err, r) \<Rightarrow> (None, s4\<lparr>router := r\<rparr>)
            | (None, r) \<Rightarrow> (None, s4\<lparr>router := r\<rparr>)))"

definition RelayHandler_serveClientCloseMsgJSON ::
  "('ej, 'fj, 'f, 'c, 'r) env \<Rightarrow> string \<Rightarrow> ('ej, 'f, 'c, 'r) state \<Rightarrow> string
     \<Rightarrow> error option \<times> ('ej, 'f, 'c, 'r) state" where
  "RelayHandler_serveClientCloseMsgJSON env connID s subID =
     (let s1 = emit (CallClose connID subID) s in
      case Close env (router s1) connID subID of
        (Some err, r) \<Rightarrow> (Some (CannotCloseConn subID), s1\<lparr>router := r\<rparr>)
      | (None, r) \<Rightarrow> (None, s1\<lparr>router := r\<rparr>))"

definition RelayHandler_serveClientEventMsgJSON ::
  "('ej, 'fj, 'f, 'c, 'r) env \<Rightarrow> int \<Rightarrow> ('ej, 'f, 'c, 'r) state \<Rightarrow> 'ej
     \<Rightarrow> error option \<times> ('ej, 'f, 'c, 'r) state" where
  "RelayHandler_serveClientEventMsgJSON env now s eventJSON =
     (case Verify env eventJSON of
        (ok, Some err) \<Rightarrow> (Some VerifyError, s)
      | (ok, None) \<Rightarrow>
          if \<not> ok then (Some InvalidSignature, s)
          else
            let s0 = emit (PromInc ''promEventCounter'') s;
                event = NewEvent eventJSON now
            in
              if \<not> ValidCreatedAt env event then (Some InvalidCreatedAt, s0)
              else
                let s1 = (emit (CallSave event) s0)\<lparr>db := Save env (db s0) event\<rparr>;
                    s2 = emit (CallPublish event) s1
                in (case Publish env (router s2) event of
                      (Some err, r) \<Rightarrow> (Some PublishError, s2\<lparr>router := r\<rparr>)
                    | (None, r) \<Rightarrow> (None, s2\<lparr>router := r\<rparr>)))"

definition RelayHandler_wsReceiver_turn ::
  "('ej, 'fj, 'f, 'c, 'r) env \<Rightarrow> Flags \<Rightarrow> string \<Rightarrow> ('ej, 'f, 'c, 'r) state \<Rightarrow> Turn
     \<Rightarrow> error + ('ej, 'f, 'c, 'r) state" where
  "RelayHandler_wsReceiver_turn env flags connID s t =
     (case lim_Wait t of
        Some err \<Rightarrow> Inl (RateLimiterError err)
      | None \<Rightarrow>
         (case RelayHandler_wsRead flags (frame t) of
            (p, Some err) \<Rightarrow> Inl (ReceiveError err)
          | (p, None) \<Rightarrow>
              if \<not> utf8_Valid env p then Inr (emit (LogInfo ''payload is not utf8'') s)
              else
                (case ParseClientMsgJSON env p of
                   Inl err \<Rightarrow> Inr (emit (LogInfo ''received invalid client msg'') s)
                 | Inr jsonMsg \<Rightarrow>
                     let s1 = emit (PromInc ''promWSRecvCounter'')
                                (emit (LogInfo ''receive client msg'') s) in
                     (case jsonMsg of
                        ClientReqMsgJSON subID filterJSONs \<Rightarrow>
                          (case RelayHandler_serveClientReqMsgJSON env connID s1 subID filterJSONs of
                             (Some err, s2) \<Rightarrow>
                               Inr (emit (LogInfo ''failed to serve client req msg'') s2)
                           | (None, s2) \<Rightarrow> Inr s2)
                      | ClientCloseMsgJSON subID \<Rightarrow>
                          (case RelayHandler_serveClientCloseMsgJSON env connID s1 subID of
                             (Some err, s2) \<Rightarrow>
                               Inr (emit (LogInfo ''failed to serve client close msg'') s2)
                           | (None, s2) \<Rightarrow> Inr s2)
                      | ClientEventMsgJSON eventJSON \<Rightarrow>
                          (case RelayHandler_serveClientEventMsgJSON env (time_Now t) s1 eventJSON of
                             (Some err, s2) \<Rightarrow>
                               Inr (emit (LogInfo ''failed to serve client event msg'') s2)
                           | (None, s2) \<Rightarrow> Inr s2)
                      | ClientOtherMsgJSON \<Rightarrow> Inr s1))))"

fun RelayHandler_wsReceiver ::
  "('ej, 'fj, 'f, 'c, 'r) env \<Rightarrow> Flags \<Rightarrow> string \<Rightarrow> ('ej, 'f, 'c, 'r) state \<Rightarrow> Turn list
     \<Rightarrow> outcome \<times> ('ej, 'f, 'c, 'r) state" where
  "RelayHandler_wsReceiver env flags connID s [] = (AwaitingFrame, s)"
| "RelayHandler_wsReceiver env flags connID s (t # ts) =
     (case RelayHandler_wsReceiver_turn env flags connID s t of
        Inl err \<Rightarrow> (Returned err, s)
      | Inr s' \<Rightarrow> RelayHandler_wsReceiver env flags connID s' ts)"

section \<open>A concrete relay to evaluate on\<close>

text \<open>
  An instance of the parameters, for evaluating the handlers on concrete input. Events are
  numbers and so are filters; the cache is the list of saved events, oldest first; the
  router is the list of \<open>(connID, subID)\<close> pairs subscribed, at most two per connection.
  An event verifies when it is not \<open>0\<close>, fails with an error when it is \<open>13\<close>, and its
  \<^verbatim>\<open>created_at\<close> is sane when it is below \<open>100\<close>. A payload parses by its first character:
  \<open>R\<close> is a \<^verbatim>\<open>REQ\<close> with as many filters as characters follow, \<open>C\<close> a \<^verbatim>\<open>CLOSE\<close>, \<open>E\<close> an
  \<^verbatim>\<open>EVENT\<close> whose event is the number of characters that follow. A byte is valid text when
  it is below \<open>0x80\<close>.
\<close>

definition ex_Parse :: "string \<Rightarrow> error + (nat, nat) ClientMsgJSON" where
  "ex_Parse p =
     (case p of
        [] \<Rightarrow> Inl (External ''empty'')
      | c # cs \<Rightarrow>
          if c = CHR ''R'' then Inr (ClientReqMsgJSON ''sub'' (map (\<lambda>_. 1) cs))
          else if c = CHR ''C'' then Inr (ClientCloseMsgJSON ''sub'')
          else if c = CHR ''E'' then Inr (ClientEventMsgJSON (length cs))
          else Inl (External ''not a client message''))"

definition ex_Subscribe ::
  "(string \<times> string) list \<Rightarrow> string \<Rightarrow> string \<Rightarrow> nat list \<Rightarrow> error option \<times> (string \<times> string) list" where
  "ex_Subscribe r connID subID filters =
     (if length (filter (\<lambda>x. fst x = connID) r) \<ge> 2 then (Some (External ''too many subscriptions''), r)
      else (None, r @ [(connID, subID)]))"

definition ex_Close ::
  "(string \<times> string) list \<Rightarrow> string \<Rightarrow> string \<Rightarrow> error option \<times> (string \<times> string) list" where
  "ex_Close r connID subID =
     (if (connID, subID) \<in> set r then (None, removeAll (connID, subID) r)
      else (Some (External ''not found''), r))"

definition ex_env :: "(nat, nat, nat, nat Event list, (string \<times> string) list) env" where
  "ex_env =
     \<lparr> utf8_Valid = list_all (\<lambda>c. of_char c < (128::nat)),
       ParseClientMsgJSON = ex_Parse,
       NewFiltersFromFilterJSONs = (\<lambda>fjs. fjs),
       FindAll = (\<lambda>c filters. filter (\<lambda>e. EventJSON e \<in> set filters) c),
       Save = (\<lambda>c e. c @ [e]),
       Subscribe = ex_Subscribe,
       Close = ex_Close,
       Delete = (\<lambda>r connID. filter (\<lambda>x. fst x \<noteq> connID) r),
       Publish = (\<lambda>r e. (None, r)),
       Verify = (\<lambda>ej. (ej \<noteq> 0, if ej = 13 then Some (External ''bad encoding'') else None)),
       ValidCreatedAt = (\<lambda>e. EventJSON e < 100) \<rparr>"

definition ex_flags :: Flags where
  "ex_flags = flag_Parse []"

definition ex_state :: "(nat, nat, nat Event list, (string \<times> string) list) state" where
  "ex_state = \<lparr> db = [Event 1 10, Event 2 11, Event 1 12], router = [], trace = [] \<rparr>"

definition ex_turn :: "string \<Rightarrow> Turn" where
  "ex_turn p =
     \<lparr> lim_Wait = None,
       frame = \<lparr> NextFrame = Inr OpText, payload = p, read_err = None \<rparr>,
       time_Now = 20 \<rparr>"

section \<open>Basic facts\<close>

lemma trace_emit [simp]: "trace (emit x s) = trace s @ [x]"
  by (simp add: emit_def)
lemma db_emit [simp]: "db (emit x s) = db s"
  by (simp add: emit_def)
lemma router_emit [simp]: "router (emit x s) = router s"
  by (simp add: emit_def)

lemma trace_fold_emit [simp]: "trace (fold (\<lambda>e. emit (g e)) xs s) = trace s @ map g xs"
  by (induction xs arbitrary: s) simp_all
lemma db_fold_emit [simp]: "db (fold (\<lambda>e. emit (g e)) xs s) = db s"
  by (induction xs arbitrary: s) simp_all
lemma router_fold_emit [simp]: "router (fold (\<lambda>e. emit (g e)) xs s) = router s"
  by (induction xs arbitrary: s) simp_all

lemma sent_append [simp]: "sent (xs @ ys) = sent xs @ sent ys"
  by (induction xs rule: sent.induct) simp_all
lemma sent_map_Send [simp]: "sent (map (\<lambda>e. Send (f e)) xs) = map f xs"
  by (induction xs) simp_all

lemma filter_is_EOSE_events [simp]: "filter is_EOSE (map (\<lambda>e. ServerEventMsg subID (f e)) xs) = []"
  by (induction xs) simp_all

lemma RelayHandler_wsRead_eq: "RelayHandler_wsRead flags fr = wsRead flags fr"
  by (simp add: RelayHandler_wsRead_def wsRead_def)

lemma serveClientReqMsgJSON_accepted:
  assumes "length (NewFiltersFromFilterJSONs env fjs) \<le> MaxFilterLen + 2"
  shows "fst (serveClientReqMsgJSON env connID s subID fjs) = None"
    and "trace (snd (serveClientReqMsgJSON env connID s subID fjs)) =
           trace s @ [CallFindAll (NewFiltersFromFilterJSONs env fjs)]
           @ map (\<lambda>e. Send (ServerEventMsg subID (EventJSON e)))
               (FindAll env (db s) (NewFiltersFromFilterJSONs env fjs))
           @ [Send (ServerEOSEMsg subID), CallSubscribe connID subID (NewFiltersFromFilterJSONs env fjs)]"
    and "db (snd (serveClientReqMsgJSON env connID s subID fjs)) = db s"
    and "router (snd (serveClientReqMsgJSON env connID s subID fjs)) =
           snd (Subscribe env (router s) connID subID (NewFiltersFromFilterJSONs env fjs))"
  using assms by (simp_all add: serveClientReqMsgJSON_def Let_def)

lemma RelayHandler_serveClientReqMsgJSON_accepted:
  assumes "length (NewFiltersFromFilterJSONs env fjs) \<le> MaxFilterLen + 2"
  shows "fst (RelayHandler_serveClientReqMsgJSON env connID s subID fjs) = None"
    and "trace (snd (RelayHandler_serveClientReqMsgJSON env connID s subID fjs)) =
           trace s @ [CallFindAll (NewFiltersFromFilterJSONs env fjs)]
           @ map (\<lambda>e. Send (ServerEventMsg subID (EventJSON e)))
               (FindAll env (db s) (NewFiltersFromFilterJSONs env fjs))
           @ [Send (ServerEOSEMsg subID), CallSubscribe connID subID (NewFiltersFromFilterJSONs env fjs)]"
    and "db (snd (RelayHandler_serveClientReqMsgJSON env connID s subID fjs)) = db s"
    and "router (snd (RelayHandler_serveClientReqMsgJSON env connID s subID fjs)) =
           snd (Subscribe env (router s) connID subID (NewFiltersFromFilterJSONs env fjs))"
  using assms
  by (simp_all add: RelayHandler_serveClientReqMsgJSON_def Let_def NewServerEventMsg_def
        NewServerEOSEMsg_def split: prod.splits option.splits)

lemma serveClientReqMsgJSON_rejected:
  assumes "MaxFilterLen + 2 < length (NewFiltersFromFilterJSONs env fjs)"
  shows "serveClientReqMsgJSON env connID s subID fjs = (Some FilterTooLong, s)"
    and "RelayHandler_serveClientReqMsgJSON env connID s subID fjs = (Some FilterTooLong, s)"
  using assms by (simp_all add: serveClientReqMsgJSON_def RelayHandler_serveClientReqMsgJSON_def Let_def)

lemma fold_emit: "fold (\<lambda>e. emit (g e)) xs s = s\<lparr>trace := trace s @ map g xs\<rparr>"
  by (induction xs arbitrary: s) (simp_all add: emit_def)

lemma serveClientReqMsgJSON_accepted_state:
  assumes "length (NewFiltersFromFilterJSONs env fjs) \<le> MaxFilterLen + 2"
  shows "serveClientReqMsgJSON env connID s subID fjs =
           (None, s\<lparr>router := snd (Subscribe env (router s) connID subID
                                     (NewFiltersFromFilterJSONs env fjs)),
                    trace := trace s @ CallFindAll (NewFiltersFromFilterJSONs env fjs) #
                      map (\<lambda>e. Send (ServerEventMsg subID (EventJSON e)))
                        (FindAll env (db s) (NewFiltersFromFilterJSONs env fjs))
                      @ [Send (ServerEOSEMsg subID),
                         CallSubscribe connID subID (NewFiltersFromFilterJSONs env fjs)]\<rparr>)"
    and "RelayHandler_serveClientReqMsgJSON env connID s subID fjs =
           serveClientReqMsgJSON env connID s subID fjs"
  using assms
  by (simp_all add: serveClientReqMsgJSON_def RelayHandler_serveClientReqMsgJSON_def Let_def
        fold_emit emit_def NewServerEventMsg_def NewServerEOSEMsg_def
        split: prod.splits option.splits)

lemma ex_wsRead [simp]:
  "length p \<le> 1048576 \<Longrightarrow> wsRead ex_flags (frame (ex_turn p)) = (p, None)"
  by (simp add: ex_turn_def ex_flags_def flag_Parse_def wsRead_def ReadAll_LimitReader_def
        int_add_def DefaultClientMsgLen_def)

lemma ex_turn_simps [simp]: "lim_Wait (ex_turn p) = None" "time_Now (ex_turn p) = 20"
  by (simp_all add: ex_turn_def)

section \<open>Replay of the cache on a REQ\<close>

text \<open>
  C1. A \<^verbatim>\<open>REQ\<close> that \<^verbatim>\<open>serveClientReqMsgJSON\<close> serves (its filters pass the length guard)
  returns \<^verbatim>\<open>nil\<close>, and what it adds to the trace is: the call of \<^verbatim>\<open>FindAll\<close>, one \<^verbatim>\<open>EVENT\<close>
  frame on the channel for each event \<^verbatim>\<open>FindAll\<close> returned, in that order, one \<^verbatim>\<open>EOSE\<close>
  frame, and only then the call of \<^verbatim>\<open>Router.Subscribe\<close>. Among the frames added there is
  exactly one \<^verbatim>\<open>EOSE\<close>, the last. The method of \<^verbatim>\<open>RelayHandler\<close> adds the same trace.
\<close>

theorem replay_EOSE_then_Subscribe:
  assumes "length (NewFiltersFromFilterJSONs env fjs) \<le> MaxFilterLen + 2"
  shows "fst (serveClientReqMsgJSON env connID s subID fjs) = None
       \<and> trace (snd (serveClientReqMsgJSON env connID s subID fjs)) =
           trace s @ [CallFindAll (NewFiltersFromFilterJSONs env fjs)]
           @ map (\<lambda>e. Send (ServerEventMsg subID (EventJSON e)))
               (FindAll env (db s) (NewFiltersFromFilterJSONs env fjs))
           @ [Send (ServerEOSEMsg subID),
              CallSubscribe connID subID (NewFiltersFromFilterJSONs env fjs)]
       \<and> sent (trace (snd (serveClientReqMsgJSON env connID s subID fjs))) =
           sent (trace s)
           @ map (\<lambda>e. ServerEventMsg subID (EventJSON e))
               (FindAll env (db s) (NewFiltersFromFilterJSONs env fjs))
           @ [ServerEOSEMsg subID]
       \<and> filter is_EOSE
            (drop (length (sent (trace s)))
               (sent (trace (snd (serveClientReqMsgJSON env connID s subID fjs))))) =
           [ServerEOSEMsg subID]
       \<and> fst (RelayHandler_serveClientReqMsgJSON env connID s subID fjs) = None
       \<and> trace (snd (RelayHandler_serveClientReqMsgJSON env connID s subID fjs)) =
           trace (snd (serveClientReqMsgJSON env connID s subID fjs))"
  using assms
  by (simp add: serveClientReqMsgJSON_accepted RelayHandler_serveClientReqMsgJSON_accepted)

theorem replay_EOSE_then_Subscribe_witness:
  "length (NewFiltersFromFilterJSONs ex_env [1]) \<le> MaxFilterLen + 2
   \<and> fst (serveClientReqMsgJSON ex_env ''conn'' ex_state ''sub'' [1]) = None
   \<and> trace (snd (serveClientReqMsgJSON ex_env ''conn'' ex_state ''sub'' [1])) =
       [CallFindAll [1], Send (ServerEventMsg ''sub'' 1), Send (ServerEventMsg ''sub'' 1),
        Send (ServerEOSEMsg ''sub''), CallSubscribe ''conn'' ''sub'' [1]]
   \<and> trace (snd (RelayHandler_serveClientReqMsgJSON ex_env ''conn'' ex_state ''sub'' [1])) =
       [CallFindAll [1], Send (ServerEventMsg ''sub'' 1), Send (ServerEventMsg ''sub'' 1),
        Send (ServerEOSEMsg ''sub''), CallSubscribe ''conn'' ''sub'' [1]]"
proof -
  have h: "length (NewFiltersFromFilterJSONs ex_env [1]) \<le> MaxFilterLen + 2"
    by (simp add: ex_env_def MaxFilterLen_def)
  show ?thesis
    using h replay_EOSE_then_Subscribe [OF h, of "''conn''" ex_state "''sub''"]
    by (simp add: ex_env_def ex_state_def)
qed

section \<open>Serving an EVENT\<close>

lemma serveClientEventMsgJSON_verified:
  assumes "Verify env ej = (True, None)"
  shows "trace (snd (serveClientEventMsgJSON env now s ej)) =
           trace s @ [CallSave (Event ej now), CallPublish (Event ej now)]"
    and "db (snd (serveClientEventMsgJSON env now s ej)) = Save env (db s) (Event ej now)"
    and "router (snd (serveClientEventMsgJSON env now s ej)) =
           snd (Publish env (router s) (Event ej now))"
  using assms
  by (simp_all add: serveClientEventMsgJSON_def Let_def split: prod.splits option.splits)

lemma RelayHandler_serveClientEventMsgJSON_verified:
  assumes "Verify env ej = (True, None)" and "ValidCreatedAt env (Event ej now)"
  shows "trace (snd (RelayHandler_serveClientEventMsgJSON env now s ej)) =
           trace s @ [PromInc ''promEventCounter'', CallSave (Event ej now),
                      CallPublish (Event ej now)]"
    and "db (snd (RelayHandler_serveClientEventMsgJSON env now s ej)) =
           Save env (db s) (Event ej now)"
    and "router (snd (RelayHandler_serveClientEventMsgJSON env now s ej)) =
           snd (Publish env (router s) (Event ej now))"
  using assms
  by (simp_all add: RelayHandler_serveClientEventMsgJSON_def NewEvent_def Let_def
        split: prod.splits option.splits)

lemma RelayHandler_serveClientEventMsgJSON_invalid_created_at:
  assumes "Verify env ej = (True, None)" and "\<not> ValidCreatedAt env (Event ej now)"
  shows "RelayHandler_serveClientEventMsgJSON env now s ej =
           (Some InvalidCreatedAt, emit (PromInc ''promEventCounter'') s)"
  using assms
  by (simp add: RelayHandler_serveClientEventMsgJSON_def NewEvent_def Let_def)

lemma serveClientEventMsgJSON_not_verified:
  assumes "Verify env ej \<noteq> (True, None)"
  shows "\<exists>err. serveClientEventMsgJSON env now s ej = (Some err, s)"
    and "\<exists>err. RelayHandler_serveClientEventMsgJSON env now s ej = (Some err, s)"
  using assms
  by (auto simp add: serveClientEventMsgJSON_def RelayHandler_serveClientEventMsgJSON_def
        split: prod.splits option.splits)

text \<open>
  C2. For an \<^verbatim>\<open>EVENT\<close> message whose event passes \<^verbatim>\<open>Verify\<close>, the function
  \<^verbatim>\<open>serveClientEventMsgJSON\<close> adds to the trace the call of \<^verbatim>\<open>Save\<close> on the event and, after
  it, the call of \<^verbatim>\<open>Publish\<close> on the same event, and nothing else; the cache it leaves is
  the saved one and the router the published one. The method of \<^verbatim>\<open>RelayHandler\<close> makes the
  same two calls in the same order after its metric, or neither when the event's
  \<^verbatim>\<open>created_at\<close> is not valid: \<^verbatim>\<open>Publish\<close> is never called without \<^verbatim>\<open>Save\<close> before it.
\<close>

theorem Save_before_Publish:
  assumes "Verify env ej = (True, None)"
  shows "trace (snd (serveClientEventMsgJSON env now s ej)) =
           trace s @ [CallSave (Event ej now), CallPublish (Event ej now)]
       \<and> db (snd (serveClientEventMsgJSON env now s ej)) = Save env (db s) (Event ej now)
       \<and> router (snd (serveClientEventMsgJSON env now s ej)) =
           snd (Publish env (router s) (Event ej now))
       \<and> trace (snd (RelayHandler_serveClientEventMsgJSON env now s ej)) =
           trace s @ PromInc ''promEventCounter'' #
             (if ValidCreatedAt env (Event ej now)
              then [CallSave (Event ej now), CallPublish (Event ej now)] else [])"
  using assms
  by (simp add: serveClientEventMsgJSON_verified RelayHandler_serveClientEventMsgJSON_verified
        RelayHandler_serveClientEventMsgJSON_invalid_created_at)

theorem Save_before_Publish_witness:
  "Verify ex_env 7 = (True, None)
   \<and> trace (snd (serveClientEventMsgJSON ex_env 20 ex_state 7)) =
       [CallSave (Event 7 20), CallPublish (Event 7 20)]
   \<and> db (snd (serveClientEventMsgJSON ex_env 20 ex_state 7)) =
       [Event 1 10, Event 2 11, Event 1 12, Event 7 20]
   \<and> trace (snd (RelayHandler_serveClientEventMsgJSON ex_env 20 ex_state 7)) =
       [PromInc ''promEventCounter'', CallSave (Event 7 20), CallPublish (Event 7 20)]"
proof -
  have h: "Verify ex_env 7 = (True, None)"
    by (simp add: ex_env_def)
  show ?thesis
    using h Save_before_Publish [OF h, of 20 ex_state]
    by (simp add: ex_env_def ex_state_def)
qed

text \<open>
  C3. The claim is that a \<^verbatim>\<open>REQ\<close> with more than \<^verbatim>\<open>MaxFilterLen = 50\<close> filters is rejected and
  puts no frame on the channel. The guard of both revisions compares the number of filters
  with \<^verbatim>\<open>MaxFilterLen+2\<close>: a \<^verbatim>\<open>REQ\<close> with 51 filters, more than \<^verbatim>\<open>MaxFilterLen\<close>, is served. It
  returns \<^verbatim>\<open>nil\<close> and the replay frames and the \<^verbatim>\<open>EOSE\<close> frame are on the channel.
\<close>

theorem serveClientReqMsgJSON_serves_51_filters:
  "MaxFilterLen < length (NewFiltersFromFilterJSONs ex_env (replicate 51 1))
   \<and> fst (serveClientReqMsgJSON ex_env ''conn'' ex_state ''sub'' (replicate 51 1)) = None
   \<and> sent (trace (snd (serveClientReqMsgJSON ex_env ''conn'' ex_state ''sub'' (replicate 51 1)))) =
       [ServerEventMsg ''sub'' 1, ServerEventMsg ''sub'' 1, ServerEOSEMsg ''sub'']
   \<and> fst (RelayHandler_serveClientReqMsgJSON ex_env ''conn'' ex_state ''sub'' (replicate 51 1)) = None
   \<and> sent (trace (snd (RelayHandler_serveClientReqMsgJSON ex_env ''conn'' ex_state ''sub''
        (replicate 51 1)))) =
       [ServerEventMsg ''sub'' 1, ServerEventMsg ''sub'' 1, ServerEOSEMsg ''sub'']
   \<and> ParseClientMsgJSON ex_env (CHR ''R'' # replicate 51 CHR ''x'') =
       Inr (ClientReqMsgJSON ''sub'' (replicate 51 1))
   \<and> sent (trace (snd (wsReceiver ex_env ex_flags ''conn'' ex_state
        [ex_turn (CHR ''R'' # replicate 51 CHR ''x'')]))) =
       [ServerEventMsg ''sub'' 1, ServerEventMsg ''sub'' 1, ServerEOSEMsg ''sub'']"
proof -
  have h: "length (NewFiltersFromFilterJSONs ex_env (replicate 51 1)) \<le> MaxFilterLen + 2"
    by (simp add: ex_env_def MaxFilterLen_def)
  have p: "ParseClientMsgJSON ex_env (CHR ''R'' # replicate 51 CHR ''x'') =
             Inr (ClientReqMsgJSON ''sub'' (replicate 51 1))"
    by (simp add: ex_env_def ex_Parse_def)
  have l: "sent (trace (snd (wsReceiver ex_env ex_flags ''conn'' ex_state
             [ex_turn (CHR ''R'' # replicate 51 CHR ''x'')]))) =
           [ServerEventMsg ''sub'' 1, ServerEventMsg ''sub'' 1, ServerEOSEMsg ''sub'']"
    by (simp add: wsReceiver_turn_def serveClientReqMsgJSON_accepted_state emit_def Let_def
          ex_env_def ex_Parse_def ex_state_def list_all_iff MaxFilterLen_def)
  show ?thesis
    using p l serveClientReqMsgJSON_accepted [OF h, of "''conn''" ex_state "''sub''"]
      RelayHandler_serveClientReqMsgJSON_accepted [OF h, of "''conn''" ex_state "''sub''"]
    by (simp add: ex_env_def ex_state_def MaxFilterLen_def)
qed

text \<open>
  C5. The claim is that an event with an invalid \<^verbatim>\<open>created_at\<close> is never passed to \<^verbatim>\<open>Save\<close> or
  \<^verbatim>\<open>Publish\<close>. The function \<^verbatim>\<open>serveClientEventMsgJSON\<close> has no such check: an event that
  verifies and whose \<^verbatim>\<open>created_at\<close> is not valid is saved and published. The method of
  \<^verbatim>\<open>RelayHandler\<close> has the check and returns the error before \<^verbatim>\<open>Save\<close>, on the same input.
\<close>

theorem serveClientEventMsgJSON_saves_invalid_created_at:
  "Verify ex_env 150 = (True, None)
   \<and> \<not> ValidCreatedAt ex_env (Event 150 20)
   \<and> trace (snd (serveClientEventMsgJSON ex_env 20 ex_state 150)) =
       [CallSave (Event 150 20), CallPublish (Event 150 20)]
   \<and> db (snd (serveClientEventMsgJSON ex_env 20 ex_state 150)) =
       [Event 1 10, Event 2 11, Event 1 12, Event 150 20]
   \<and> RelayHandler_serveClientEventMsgJSON ex_env 20 ex_state 150 =
       (Some InvalidCreatedAt, emit (PromInc ''promEventCounter'') ex_state)
   \<and> wsReceiver ex_env ex_flags ''conn'' ex_state
        [ex_turn (CHR ''E'' # replicate 150 CHR ''a'')] =
       (AwaitingFrame,
        ex_state\<lparr>db := [Event 1 10, Event 2 11, Event 1 12, Event 150 20],
                 trace := [AccessLogRecv (CHR ''E'' # replicate 150 CHR ''a''),
                           CallSave (Event 150 20), CallPublish (Event 150 20)]\<rparr>)"
proof -
  have h: "Verify ex_env 150 = (True, None)"
    by (simp add: ex_env_def)
  have v: "\<not> ValidCreatedAt ex_env (Event 150 20)"
    by (simp add: ex_env_def)
  have l: "wsReceiver ex_env ex_flags ''conn'' ex_state
        [ex_turn (CHR ''E'' # replicate 150 CHR ''a'')] =
       (AwaitingFrame,
        ex_state\<lparr>db := [Event 1 10, Event 2 11, Event 1 12, Event 150 20],
                 trace := [AccessLogRecv (CHR ''E'' # replicate 150 CHR ''a''),
                           CallSave (Event 150 20), CallPublish (Event 150 20)]\<rparr>)"
    by (simp add: wsReceiver_turn_def serveClientEventMsgJSON_def emit_def Let_def
          ex_env_def ex_Parse_def ex_state_def list_all_iff)
  show ?thesis
    using h v l serveClientEventMsgJSON_verified [OF h, of 20 ex_state]
      RelayHandler_serveClientEventMsgJSON_invalid_created_at [OF h v, of ex_state]
    by (simp add: ex_env_def ex_state_def)
qed

section \<open>The receive loop on frames it does not serve\<close>

text \<open>
  C4. An \<^verbatim>\<open>EVENT\<close> message whose event does not verify (\<^verbatim>\<open>Verify\<close> returns \<^verbatim>\<open>false\<close> or an
  error): the handler returns an error and leaves the state as it was, so nothing is saved
  and nothing is published; the receive loop logs the failure and goes on with the next
  turn, in a state that differs from the one before the frame in the log lines only. The
  same holds for the receive loop of \<^verbatim>\<open>RelayHandler\<close>.
\<close>

theorem unverified_event_skipped:
  assumes "lim_Wait t = None"
    and "wsRead flags (frame t) = (p, None)"
    and "utf8_Valid env p"
    and "ParseClientMsgJSON env p = Inr (ClientEventMsgJSON ej)"
    and "Verify env ej \<noteq> (True, None)"
  shows "snd (serveClientEventMsgJSON env (time_Now t) s ej) = s
       \<and> fst (serveClientEventMsgJSON env (time_Now t) s ej) \<noteq> None
       \<and> wsReceiver env flags connID s (t # ts) =
           wsReceiver env flags connID
             (s\<lparr>trace := trace s @ [AccessLogRecv p,
                                     LogStderr ''failed to serve client event msg'']\<rparr>) ts
       \<and> RelayHandler_wsReceiver env flags connID s (t # ts) =
           RelayHandler_wsReceiver env flags connID
             (s\<lparr>trace := trace s @ [LogInfo ''receive client msg'', PromInc ''promWSRecvCounter'',
                                     LogInfo ''failed to serve client event msg'']\<rparr>) ts"
proof -
  obtain e1 where e1: "serveClientEventMsgJSON env (time_Now t) s ej = (Some e1, s)"
    using serveClientEventMsgJSON_not_verified(1) [OF assms(5)] by blast
  obtain e2 where e2: "serveClientEventMsgJSON env (time_Now t) (emit (AccessLogRecv p) s) ej
      = (Some e2, emit (AccessLogRecv p) s)"
    using serveClientEventMsgJSON_not_verified(1) [OF assms(5)] by blast
  obtain e3 where e3: "RelayHandler_serveClientEventMsgJSON env (time_Now t)
        (emit (PromInc ''promWSRecvCounter'') (emit (LogInfo ''receive client msg'') s)) ej
      = (Some e3, emit (PromInc ''promWSRecvCounter'') (emit (LogInfo ''receive client msg'') s))"
    using serveClientEventMsgJSON_not_verified(2) [OF assms(5)] by blast
  have t1: "wsReceiver_turn env flags connID s t =
      Inr (s\<lparr>trace := trace s @ [AccessLogRecv p, LogStderr ''failed to serve client event msg'']\<rparr>)"
    using assms(1-4) e2 by (simp add: wsReceiver_turn_def emit_def)
  have t2: "RelayHandler_wsReceiver_turn env flags connID s t =
      Inr (s\<lparr>trace := trace s @ [LogInfo ''receive client msg'', PromInc ''promWSRecvCounter'',
                                     LogInfo ''failed to serve client event msg'']\<rparr>)"
    using assms(1-4) e3 by (simp add: RelayHandler_wsReceiver_turn_def RelayHandler_wsRead_eq emit_def)
  show ?thesis using e1 t1 t2 by simp
qed

theorem unverified_event_skipped_witness:
  "lim_Wait (ex_turn ''E'') = None
   \<and> wsRead ex_flags (frame (ex_turn ''E'')) = (''E'', None)
   \<and> utf8_Valid ex_env ''E''
   \<and> ParseClientMsgJSON ex_env ''E'' = Inr (ClientEventMsgJSON 0)
   \<and> Verify ex_env 0 \<noteq> (True, None)
   \<and> wsReceiver ex_env ex_flags ''conn'' ex_state [ex_turn ''E''] =
       (AwaitingFrame,
        ex_state\<lparr>trace := [AccessLogRecv ''E'', LogStderr ''failed to serve client event msg'']\<rparr>)"
proof -
  have h1: "lim_Wait (ex_turn ''E'') = None" by (simp add: ex_turn_def)
  have h2: "wsRead ex_flags (frame (ex_turn ''E'')) = (''E'', None)"
    by (simp add: ex_turn_def ex_flags_def flag_Parse_def wsRead_def ReadAll_LimitReader_def
          int_add_def DefaultClientMsgLen_def)
  have h3: "utf8_Valid ex_env ''E''" by (simp add: ex_env_def)
  have h4: "ParseClientMsgJSON ex_env ''E'' = Inr (ClientEventMsgJSON 0)"
    by (simp add: ex_env_def ex_Parse_def)
  have h5: "Verify ex_env 0 \<noteq> (True, None)" by (simp add: ex_env_def)
  show ?thesis
    using h1 h2 h3 h4 h5 unverified_event_skipped [OF h1 h2 h3 h4 h5, of ex_state "''conn''" "[]"]
    by (simp add: ex_state_def)
qed

text \<open>
  C8. A frame whose payload \<^verbatim>\<open>ParseClientMsgJSON\<close> rejects: the receive loop goes on with
  the next turn in the state it had, with one log line more. No cache or router call is
  made, the frames on the channel are the same, and the loop has not returned. Both
  revisions of the loop do so.
\<close>

theorem malformed_frame_skipped:
  assumes "lim_Wait t = None"
    and "wsRead flags (frame t) = (p, None)"
    and "utf8_Valid env p"
    and "ParseClientMsgJSON env p = Inl err"
  shows "wsReceiver env flags connID s (t # ts) =
           wsReceiver env flags connID
             (s\<lparr>trace := trace s @ [LogStderr ''received invalid msg'']\<rparr>) ts
       \<and> RelayHandler_wsReceiver env flags connID s (t # ts) =
           RelayHandler_wsReceiver env flags connID
             (s\<lparr>trace := trace s @ [LogInfo ''received invalid client msg'']\<rparr>) ts
       \<and> sent (trace s @ [LogStderr ''received invalid msg'']) = sent (trace s)
       \<and> sent (trace s @ [LogInfo ''received invalid client msg'']) = sent (trace s)"
  using assms
  by (simp add: wsReceiver_turn_def RelayHandler_wsReceiver_turn_def RelayHandler_wsRead_eq
        emit_def)

theorem malformed_frame_skipped_witness:
  "lim_Wait (ex_turn ''x'') = None
   \<and> wsRead ex_flags (frame (ex_turn ''x'')) = (''x'', None)
   \<and> utf8_Valid ex_env ''x''
   \<and> ParseClientMsgJSON ex_env ''x'' = Inl (External ''not a client message'')
   \<and> wsReceiver ex_env ex_flags ''conn'' ex_state [ex_turn ''x'', ex_turn ''E1234567''] =
       (AwaitingFrame,
        ex_state\<lparr>db := [Event 1 10, Event 2 11, Event 1 12, Event 7 20],
                 trace := [LogStderr ''received invalid msg'', AccessLogRecv ''E1234567'',
                           CallSave (Event 7 20), CallPublish (Event 7 20)]\<rparr>)"
proof -
  have h1: "lim_Wait (ex_turn ''x'') = None" by (simp add: ex_turn_def)
  have h2: "wsRead ex_flags (frame (ex_turn ''x'')) = (''x'', None)" by simp
  have h3: "utf8_Valid ex_env ''x''" by (simp add: ex_env_def)
  have h4: "ParseClientMsgJSON ex_env ''x'' = Inl (External ''not a client message'')"
    by (simp add: ex_env_def ex_Parse_def)
  have h5: "wsReceiver_turn ex_env ex_flags ''conn''
       (ex_state\<lparr>trace := [LogStderr ''received invalid msg'']\<rparr>) (ex_turn ''E1234567'') =
     Inr (ex_state\<lparr>db := [Event 1 10, Event 2 11, Event 1 12, Event 7 20],
                 trace := [LogStderr ''received invalid msg'', AccessLogRecv ''E1234567'',
                           CallSave (Event 7 20), CallPublish (Event 7 20)]\<rparr>)"
    by (simp add: wsReceiver_turn_def serveClientEventMsgJSON_def emit_def Let_def
          ex_env_def ex_Parse_def ex_state_def)
  show ?thesis
    using h1 h2 h3 h4 h5
      malformed_frame_skipped [OF h1 h2 h3 h4, of "''conn''" ex_state "[ex_turn ''E1234567'']"]
    by (simp add: ex_state_def)
qed

text \<open>
  C10. A frame whose payload is not valid UTF-8: the turn ends with one log line more and
  nothing else changed, whatever the parser is (the payload is not given to it), and the
  receive loop goes on with the next turn. Both revisions of the loop do so.
\<close>

theorem non_utf8_frame_skipped:
  assumes "lim_Wait t = None"
    and "wsRead flags (frame t) = (p, None)"
    and "\<not> utf8_Valid env p"
  shows "wsReceiver_turn (env\<lparr>ParseClientMsgJSON := parse\<rparr>) flags connID s t =
           Inr (s\<lparr>trace := trace s @ [LogStderr ''payload is not utf8'']\<rparr>)
       \<and> RelayHandler_wsReceiver_turn (env\<lparr>ParseClientMsgJSON := parse\<rparr>) flags connID s t =
           Inr (s\<lparr>trace := trace s @ [LogInfo ''payload is not utf8'']\<rparr>)
       \<and> wsReceiver env flags connID s (t # ts) =
           wsReceiver env flags connID
             (s\<lparr>trace := trace s @ [LogStderr ''payload is not utf8'']\<rparr>) ts
       \<and> RelayHandler_wsReceiver env flags connID s (t # ts) =
           RelayHandler_wsReceiver env flags connID
             (s\<lparr>trace := trace s @ [LogInfo ''payload is not utf8'']\<rparr>) ts"
  using assms
  by (simp add: wsReceiver_turn_def RelayHandler_wsReceiver_turn_def RelayHandler_wsRead_eq
        emit_def)

theorem non_utf8_frame_skipped_witness:
  "lim_Wait (ex_turn [CHR ''E'', CHR 0xFF]) = None
   \<and> wsRead ex_flags (frame (ex_turn [CHR ''E'', CHR 0xFF])) = ([CHR ''E'', CHR 0xFF], None)
   \<and> \<not> utf8_Valid ex_env [CHR ''E'', CHR 0xFF]
   \<and> ParseClientMsgJSON ex_env [CHR ''E'', CHR 0xFF] = Inr (ClientEventMsgJSON 1)
   \<and> wsReceiver ex_env ex_flags ''conn'' ex_state [ex_turn [CHR ''E'', CHR 0xFF]] =
       (AwaitingFrame, ex_state\<lparr>trace := [LogStderr ''payload is not utf8'']\<rparr>)
   \<and> RelayHandler_wsReceiver ex_env ex_flags ''conn'' ex_state [ex_turn [CHR ''E'', CHR 0xFF]] =
       (AwaitingFrame, ex_state\<lparr>trace := [LogInfo ''payload is not utf8'']\<rparr>)"
proof -
  have h1: "lim_Wait (ex_turn [CHR ''E'', CHR 0xFF]) = None" by (simp add: ex_turn_def)
  have h2: "wsRead ex_flags (frame (ex_turn [CHR ''E'', CHR 0xFF])) = ([CHR ''E'', CHR 0xFF], None)"
    by simp
  have h3: "\<not> utf8_Valid ex_env [CHR ''E'', CHR 0xFF]" by (simp add: ex_env_def)
  have h4: "ParseClientMsgJSON ex_env [CHR ''E'', CHR 0xFF] = Inr (ClientEventMsgJSON 1)"
    by (simp add: ex_env_def ex_Parse_def)
  show ?thesis
    using h1 h2 h3 h4
      non_utf8_frame_skipped [OF h1 h2 h3, of "ParseClientMsgJSON ex_env" "''conn''" ex_state "[]"]
    by (simp add: ex_state_def)
qed

section \<open>A failing Subscribe\<close>

text \<open>
  C9. A \<^verbatim>\<open>REQ\<close> that passes the length guard and for which \<^verbatim>\<open>Router.Subscribe\<close> returns an
  error: both revisions of \<^verbatim>\<open>serveClientReqMsgJSON\<close> return \<^verbatim>\<open>nil\<close>, the replay \<^verbatim>\<open>EVENT\<close>
  frames and the \<^verbatim>\<open>EOSE\<close> frame are on the channel, and the receive loop goes on with the
  next turn without a log line for a failure.
\<close>

theorem Subscribe_error_discarded:
  assumes "length (NewFiltersFromFilterJSONs env fjs) \<le> MaxFilterLen + 2"
    and "fst (Subscribe env (router s) connID subID (NewFiltersFromFilterJSONs env fjs)) = Some err"
    and "lim_Wait t = None"
    and "wsRead flags (frame t) = (p, None)"
    and "utf8_Valid env p"
    and "ParseClientMsgJSON env p = Inr (ClientReqMsgJSON subID fjs)"
  shows "fst (serveClientReqMsgJSON env connID s subID fjs) = None
       \<and> fst (RelayHandler_serveClientReqMsgJSON env connID s subID fjs) = None
       \<and> sent (trace (snd (serveClientReqMsgJSON env connID s subID fjs))) =
           sent (trace s)
           @ map (\<lambda>e. ServerEventMsg subID (EventJSON e))
               (FindAll env (db s) (NewFiltersFromFilterJSONs env fjs))
           @ [ServerEOSEMsg subID]
       \<and> sent (trace (snd (RelayHandler_serveClientReqMsgJSON env connID s subID fjs))) =
           sent (trace s)
           @ map (\<lambda>e. ServerEventMsg subID (EventJSON e))
               (FindAll env (db s) (NewFiltersFromFilterJSONs env fjs))
           @ [ServerEOSEMsg subID]
       \<and> wsReceiver env flags connID s (t # ts) =
           wsReceiver env flags connID
             (s\<lparr>router := snd (Subscribe env (router s) connID subID
                                 (NewFiltersFromFilterJSONs env fjs)),
                trace := trace s @ AccessLogRecv p #
                  CallFindAll (NewFiltersFromFilterJSONs env fjs) #
                  map (\<lambda>e. Send (ServerEventMsg subID (EventJSON e)))
                    (FindAll env (db s) (NewFiltersFromFilterJSONs env fjs))
                  @ [Send (ServerEOSEMsg subID),
                     CallSubscribe connID subID (NewFiltersFromFilterJSONs env fjs)]\<rparr>) ts
       \<and> RelayHandler_wsReceiver env flags connID s (t # ts) =
           RelayHandler_wsReceiver env flags connID
             (s\<lparr>router := snd (Subscribe env (router s) connID subID
                                 (NewFiltersFromFilterJSONs env fjs)),
                trace := trace s @ LogInfo ''receive client msg'' #
                  PromInc ''promWSRecvCounter'' #
                  CallFindAll (NewFiltersFromFilterJSONs env fjs) #
                  map (\<lambda>e. Send (ServerEventMsg subID (EventJSON e)))
                    (FindAll env (db s) (NewFiltersFromFilterJSONs env fjs))
                  @ [Send (ServerEOSEMsg subID),
                     CallSubscribe connID subID (NewFiltersFromFilterJSONs env fjs)]\<rparr>) ts"
proof -
  have t1: "wsReceiver_turn env flags connID s t =
      Inr (s\<lparr>router := snd (Subscribe env (router s) connID subID
                                 (NewFiltersFromFilterJSONs env fjs)),
                trace := trace s @ AccessLogRecv p #
                  CallFindAll (NewFiltersFromFilterJSONs env fjs) #
                  map (\<lambda>e. Send (ServerEventMsg subID (EventJSON e)))
                    (FindAll env (db s) (NewFiltersFromFilterJSONs env fjs))
                  @ [Send (ServerEOSEMsg subID),
                     CallSubscribe connID subID (NewFiltersFromFilterJSONs env fjs)]\<rparr>)"
    using assms(3-6)
    by (simp add: wsReceiver_turn_def serveClientReqMsgJSON_accepted_state(1) [OF assms(1)] emit_def)
  have t2: "RelayHandler_wsReceiver_turn env flags connID s t =
      Inr (s\<lparr>router := snd (Subscribe env (router s) connID subID
                                 (NewFiltersFromFilterJSONs env fjs)),
                trace := trace s @ LogInfo ''receive client msg'' #
                  PromInc ''promWSRecvCounter'' #
                  CallFindAll (NewFiltersFromFilterJSONs env fjs) #
                  map (\<lambda>e. Send (ServerEventMsg subID (EventJSON e)))
                    (FindAll env (db s) (NewFiltersFromFilterJSONs env fjs))
                  @ [Send (ServerEOSEMsg subID),
                     CallSubscribe connID subID (NewFiltersFromFilterJSONs env fjs)]\<rparr>)"
    using assms(3-6)
    by (simp add: RelayHandler_wsReceiver_turn_def RelayHandler_wsRead_eq
          serveClientReqMsgJSON_accepted_state [OF assms(1)] emit_def)
  show ?thesis
    using t1 t2
    by (simp add: serveClientReqMsgJSON_accepted_state [OF assms(1)])
qed

theorem Subscribe_error_discarded_witness:
  "length (NewFiltersFromFilterJSONs ex_env [1]) \<le> MaxFilterLen + 2
   \<and> fst (Subscribe ex_env [(''conn'', ''a''), (''conn'', ''b'')] ''conn'' ''sub''
          (NewFiltersFromFilterJSONs ex_env [1])) = Some (External ''too many subscriptions'')
   \<and> lim_Wait (ex_turn ''Rx'') = None
   \<and> wsRead ex_flags (frame (ex_turn ''Rx'')) = (''Rx'', None)
   \<and> utf8_Valid ex_env ''Rx''
   \<and> ParseClientMsgJSON ex_env ''Rx'' = Inr (ClientReqMsgJSON ''sub'' [1])
   \<and> fst (serveClientReqMsgJSON ex_env ''conn''
        (ex_state\<lparr>router := [(''conn'', ''a''), (''conn'', ''b'')]\<rparr>) ''sub'' [1]) = None
   \<and> wsReceiver ex_env ex_flags ''conn''
        (ex_state\<lparr>router := [(''conn'', ''a''), (''conn'', ''b'')]\<rparr>) [ex_turn ''Rx''] =
       (AwaitingFrame,
        ex_state\<lparr>router := [(''conn'', ''a''), (''conn'', ''b'')],
                 trace := [AccessLogRecv ''Rx'', CallFindAll [1], Send (ServerEventMsg ''sub'' 1), Send (ServerEventMsg ''sub'' 1),
                           Send (ServerEOSEMsg ''sub''), CallSubscribe ''conn'' ''sub'' [1]]\<rparr>)"
proof -
  have h1: "length (NewFiltersFromFilterJSONs ex_env [1]) \<le> MaxFilterLen + 2"
    by (simp add: ex_env_def MaxFilterLen_def)
  have h2: "fst (Subscribe ex_env
                  (router (ex_state\<lparr>router := [(''conn'', ''a''), (''conn'', ''b'')]\<rparr>))
                  ''conn'' ''sub'' (NewFiltersFromFilterJSONs ex_env [1])) =
              Some (External ''too many subscriptions'')"
    by (simp add: ex_env_def ex_Subscribe_def)
  have h3: "lim_Wait (ex_turn ''Rx'') = None" by simp
  have h4: "wsRead ex_flags (frame (ex_turn ''Rx'')) = (''Rx'', None)" by simp
  have h5: "utf8_Valid ex_env ''Rx''" by (simp add: ex_env_def)
  have h6: "ParseClientMsgJSON ex_env ''Rx'' = Inr (ClientReqMsgJSON ''sub'' [1])"
    by (simp add: ex_env_def ex_Parse_def)
  show ?thesis
    using h1 h2 h3 h4 h5 h6 Subscribe_error_discarded [OF h1 h2 h3 h4 h5 h6, of "[]"]
    by (simp add: ex_state_def ex_env_def ex_Subscribe_def)
qed

section \<open>Oversized frames and the cache capacity\<close>









lemma Run_db_flag:
  "Run_db NewDB DefaultFilters (flag_Parse args) = NewDB (flag_Int ''db'' 10000 args) DefaultFilters"
  by (simp add: Run_db_def flag_Parse_def DefaultDBSize_def)

lemma Run_db_default: "Run_db NewDB DefaultFilters (flag_Parse []) = NewDB 10000 DefaultFilters"
  by (simp add: Run_db_flag)

lemma Run_db_configured:
  "Run_db NewDB DefaultFilters (flag_Parse [(''db'', IntFlag n)]) = NewDB n DefaultFilters"
  by (simp add: Run_db_flag)

text \<open>
  C7. The claim is that the cache is created with a configurable capacity whose default is
  10000. The \<^verbatim>\<open>Run\<close> of main.go creates it with \<^verbatim>\<open>NewDB(5)\<close>: the capacity is 5 whatever the
  command line, not \<^verbatim>\<open>DefaultDBSize\<close>. The \<^verbatim>\<open>Run\<close> that reads the flags creates it with
  \<^verbatim>\<open>*DBSize\<close>, which is 10000 by default and the value of \<^verbatim>\<open>-db\<close> when given.
\<close>

theorem main_Run_db_capacity_is_5:
  "main_Run_db (\<lambda>capacity. capacity) [] = 5
   \<and> main_Run_db (\<lambda>capacity. capacity) [(''db'', IntFlag 20000)] = 5
   \<and> main_Run_db (\<lambda>capacity. capacity) [] \<noteq> DefaultDBSize
   \<and> Run_db (\<lambda>capacity filters. capacity) [] (flag_Parse []) = DefaultDBSize
   \<and> Run_db (\<lambda>capacity filters. capacity) [] (flag_Parse [(''db'', IntFlag 20000)]) = 20000"
  by (simp add: main_Run_db_def Run_db_flag DefaultDBSize_def)

end
